theory Spec2Isabelle
  imports Main
begin

section \<open>The httperror package of ectoerror\<close>

text \<open>
  A shallow embedding of \<^verbatim>\<open>httperror/httperror.go\<close>. The package defines one struct,
  \<^verbatim>\<open>HTTPError\<close>, handed around by pointer, and functions over Go's \<^verbatim>\<open>error\<close>
  interface. Pointers are addresses into an explicit heap, so that "the same instance" is
  equality of addresses and a mutation is an update of the heap. Go's run-time panics (a
  method call on a nil interface, a field read through a nil pointer, a write to a nil map)
  are values of the type \<open>panic\<close>; a function that can panic returns \<open>panic + 'a\<close>.
\<close>

subsection \<open>Error values\<close>

type_synonym addr = nat

text \<open>A value of type \<^verbatim>\<open>*HTTPError\<close>: the nil pointer or the address of a struct.\<close>

datatype ptr = NilPtr | Addr addr

text \<open>
  A value of the interface type \<^verbatim>\<open>error\<close>, by dynamic type:
  \<^item> \<open>nil\<close>, the nil interface value;
  \<^item> \<open>errorString s\<close>, what \<^verbatim>\<open>errors.New(s)\<close> returns: no \<^verbatim>\<open>Unwrap\<close> method;
  \<^item> \<open>wrapError s e\<close>, what \<^verbatim>\<open>fmt.Errorf\<close> returns for one \<^verbatim>\<open>%w\<close>: the text \<open>s\<close>,
    and \<^verbatim>\<open>Unwrap() error\<close> returning \<open>e\<close>;
  \<^item> \<open>wrapErrors s es\<close>, what \<^verbatim>\<open>fmt.Errorf\<close> returns for several \<^verbatim>\<open>%w\<close>: the text
    \<open>s\<close>, and \<^verbatim>\<open>Unwrap() []error\<close> returning \<open>es\<close>;
  \<^item> \<open>HTTPErrorPtr p\<close>, a \<^verbatim>\<open>*HTTPError\<close> stored in the interface (a nil pointer stored
    in an interface is not the nil interface).
  None of these types has an \<^verbatim>\<open>As\<close> method. Error types that a client of the package
  declares are outside this model.
\<close>

datatype error =
    nil
  | errorString string
  | wrapError string error
  | wrapErrors string "error list"
  | HTTPErrorPtr ptr

text \<open>
  \<^verbatim>\<open>type HTTPError struct { Code int; Message string; Meta map[string]any; err error }\<close>
  The code is only stored, compared and printed, never computed with, so it is an \<open>int\<close>.
  A Go map may be nil: \<open>Meta = None\<close>. The values of the map have the type \<open>'v\<close>.
  Every constructor of the package makes a map of its own and the package never copies a
  struct, so no two structs share a map and the map is kept in the struct.
\<close>

record 'v HTTPError =
  Code :: int
  Message :: string
  Meta :: "(string \<rightharpoonup> 'v) option"
  err :: error

text \<open>The heap holds the allocated structs; the address of a struct is its index.\<close>

type_synonym 'v heap = "'v HTTPError list"

datatype panic = NilDereference | NilMapAssignment

text \<open>
  Reading through a pointer. Go has no dangling pointers; an address outside the heap is
  answered like nil, so that no unspecified value is ever read.
\<close>

fun deref :: "'v heap \<Rightarrow> ptr \<Rightarrow> panic + 'v HTTPError" where
  "deref h NilPtr = Inl NilDereference"
| "deref h (Addr a) = (if a < length h then Inr (h ! a) else Inl NilDereference)"

text \<open>\<^verbatim>\<open>&HTTPError{...}\<close>: a fresh struct at the next address.\<close>

definition new :: "'v heap \<Rightarrow> 'v HTTPError \<Rightarrow> ptr \<times> 'v heap" where
  "new h v = (Addr (length h), h @ [v])"

subsection \<open>The constants of net/http that the package uses\<close>

definition StatusOK :: int where "StatusOK = 200"
definition StatusCreated :: int where "StatusCreated = 201"
definition StatusAccepted :: int where "StatusAccepted = 202"
definition StatusNoContent :: int where "StatusNoContent = 204"
definition StatusMultipleChoices :: int where "StatusMultipleChoices = 300"
definition StatusBadRequest :: int where "StatusBadRequest = 400"
definition StatusUnauthorized :: int where "StatusUnauthorized = 401"
definition StatusForbidden :: int where "StatusForbidden = 403"
definition StatusNotFound :: int where "StatusNotFound = 404"
definition StatusInternalServerError :: int where "StatusInternalServerError = 500"
definition StatusBadGateway :: int where "StatusBadGateway = 502"
definition StatusServiceUnavailable :: int where "StatusServiceUnavailable = 503"
definition StatusGatewayTimeout :: int where "StatusGatewayTimeout = 504"
definition StatusNetworkAuthenticationRequired :: int where
  "StatusNetworkAuthenticationRequired = 511"

subsection \<open>errors.As with a target of type *HTTPError\<close>

text \<open>
  \<^verbatim>\<open>errors.As(err, &httpErr)\<close> of the standard library, for \<^verbatim>\<open>var httpErr *HTTPError\<close>:
  nil gives false; a value whose dynamic type is \<^verbatim>\<open>*HTTPError\<close> is stored in the target
  (also when it is a nil pointer) and gives true; a value with \<^verbatim>\<open>Unwrap() error\<close> is
  replaced by what it unwraps to; a value with \<^verbatim>\<open>Unwrap() []error\<close> is searched
  depth-first, left to right, skipping nil entries; anything else gives false.
  The result is \<open>Some p\<close> where Go returns true with the target set to \<open>p\<close>, and \<open>None\<close>
  where Go returns false.
\<close>

fun first_Some :: "'a option list \<Rightarrow> 'a option" where
  "first_Some [] = None"
| "first_Some (None # xs) = first_Some xs"
| "first_Some (Some x # xs) = Some x"

fun errors_As :: "error \<Rightarrow> ptr option" where
  "errors_As nil = None"
| "errors_As (HTTPErrorPtr p) = Some p"
| "errors_As (errorString s) = None"
| "errors_As (wrapError s e) = errors_As e"
| "errors_As (wrapErrors s es) = first_Some (map errors_As es)"

text \<open>
  The type assertion \<^verbatim>\<open>httpErr, ok := err.(*HTTPError)\<close>: it succeeds exactly when
  the dynamic type of \<^verbatim>\<open>err\<close> itself is \<^verbatim>\<open>*HTTPError\<close>, and unwraps nothing.
\<close>

fun type_assert :: "error \<Rightarrow> ptr option" where
  "type_assert (HTTPErrorPtr p) = Some p"
| "type_assert nil = None"
| "type_assert (errorString s) = None"
| "type_assert (wrapError s e) = None"
| "type_assert (wrapErrors s es) = None"

text \<open>
  The wrap chain of an error, to read \<open>errors_As\<close> against: the error itself, then what
  it unwraps to, in the order of the search. The nil interface is no error, and a
  \<^verbatim>\<open>*HTTPError\<close> ends its branch, since the search stops there.
\<close>

fun wrap_chain :: "error \<Rightarrow> error list" where
  "wrap_chain nil = []"
| "wrap_chain (HTTPErrorPtr p) = [HTTPErrorPtr p]"
| "wrap_chain (errorString s) = [errorString s]"
| "wrap_chain (wrapError s e) = wrapError s e # wrap_chain e"
| "wrap_chain (wrapErrors s es) = wrapErrors s es # concat (map wrap_chain es)"

subsection \<open>fmt.Sprintf, for the verbs the package uses\<close>

text \<open>The decimal digits of a natural number, most significant first.\<close>

fun digits :: "nat \<Rightarrow> string" where
  "digits n =
     (if n < 10 then [''0123456789'' ! n]
      else digits (n div 10) @ [''0123456789'' ! (n mod 10)])"

declare digits.simps [simp del]

text \<open>The number that a string of decimal digits denotes, to read \<open>digits\<close> against.\<close>

definition digit_value :: "char \<Rightarrow> nat" where
  "digit_value c = of_char c - 48"

definition decimal_value :: "string \<Rightarrow> nat" where
  "decimal_value s = foldl (\<lambda>n c. 10 * n + digit_value c) 0 s"

text \<open>What \<^verbatim>\<open>%d\<close> prints for an \<^verbatim>\<open>int\<close>: a minus sign for a negative number, then the digits.\<close>

definition itoa :: "int \<Rightarrow> string" where
  "itoa i = (if i < 0 then CHR ''-'' # digits (nat (- i)) else digits (nat i))"

datatype arg = IntArg int | StringArg string

text \<open>
  The fragment of \<^verbatim>\<open>fmt.Sprintf\<close> made of literal text, \<^verbatim>\<open>%%\<close>, \<^verbatim>\<open>%d\<close> on an \<^verbatim>\<open>int\<close>
  and \<^verbatim>\<open>%s\<close> on a \<^verbatim>\<open>string\<close>, with as many operands as verbs. \<open>None\<close> marks a call
  outside this fragment (another verb, a flag, an operand of the wrong type, too few or too
  many operands), where Go prints something this model does not describe.
\<close>

fun Sprintf :: "string \<Rightarrow> arg list \<Rightarrow> string option" where
  "Sprintf [] args = (if args = [] then Some [] else None)"
| "Sprintf (c # fs) args =
     (if c \<noteq> CHR ''%'' then map_option ((#) c) (Sprintf fs args)
      else (case fs of
              [] \<Rightarrow> None
            | v # rest \<Rightarrow>
                (if v = CHR ''%'' then map_option ((#) v) (Sprintf rest args)
                 else (case args of
                         [] \<Rightarrow> None
                       | IntArg i # args' \<Rightarrow>
                           (if v = CHR ''d''
                            then map_option ((@) (itoa i)) (Sprintf rest args')
                            else None)
                       | StringArg s # args' \<Rightarrow>
                           (if v = CHR ''s''
                            then map_option ((@) s) (Sprintf rest args')
                            else None)))))"

subsection \<open>Construction\<close>

text \<open>
  \<^verbatim>\<open>func NewHTTPError(code int, message string) *HTTPError\<close>:
  \<^verbatim>\<open>return &HTTPError{Code: code, Message: message, Meta: make(map[string]any)}\<close>.
  The field \<^verbatim>\<open>err\<close> is left at its zero value, nil.
\<close>

definition NewHTTPError :: "'v heap \<Rightarrow> int \<Rightarrow> string \<Rightarrow> ptr \<times> 'v heap" where
  "NewHTTPError h code message =
     new h \<lparr>Code = code, Message = message, Meta = Some Map.empty, err = nil\<rparr>"

text \<open>\<^verbatim>\<open>func (e *HTTPError) Unwrap() error { return e.err }\<close>\<close>

definition Unwrap :: "'v heap \<Rightarrow> ptr \<Rightarrow> panic + error" where
  "Unwrap h e = (case deref h e of Inl x \<Rightarrow> Inl x | Inr v \<Rightarrow> Inr (err v))"

text \<open>
  \<^verbatim>\<open>func (e *HTTPError) Error() string\<close>:
  \<^verbatim>\<open>return fmt.Sprintf("[%d] HTTP Error: - %s", e.Code, e.Message)\<close>.
  This call lies in the fragment of \<open>Sprintf\<close> above, for every code and message
  (\<open>Sprintf_Error_format\<close> below), so \<open>the\<close> reads a \<open>Some\<close>.
\<close>

definition Error :: "'v heap \<Rightarrow> ptr \<Rightarrow> panic + string" where
  "Error h e =
     (case deref h e of
        Inl x \<Rightarrow> Inl x
      | Inr v \<Rightarrow>
          Inr (the (Sprintf ''[%d] HTTP Error: - %s'' [IntArg (Code v), StringArg (Message v)])))"

text \<open>
  The method call \<^verbatim>\<open>err.Error()\<close> on an interface value: a panic on the nil interface,
  the stored text of the standard library's errors, and the method above on a
  \<^verbatim>\<open>*HTTPError\<close>.
\<close>

fun error_Error :: "'v heap \<Rightarrow> error \<Rightarrow> panic + string" where
  "error_Error h nil = Inl NilDereference"
| "error_Error h (errorString s) = Inr s"
| "error_Error h (wrapError s e) = Inr s"
| "error_Error h (wrapErrors s es) = Inr s"
| "error_Error h (HTTPErrorPtr p) = Error h p"

text \<open>
  \<^verbatim>\<open>func WrapError(code int, err error) *HTTPError\<close>:
  \<^verbatim>\<open>if httpErr, ok := err.(*HTTPError); ok { return httpErr }\<close>.
  Otherwise a zero code becomes 500 and a new struct is allocated; \<^verbatim>\<open>err.Error()\<close>
  panics when \<^verbatim>\<open>err\<close> is nil.
\<close>

definition WrapError :: "'v heap \<Rightarrow> int \<Rightarrow> error \<Rightarrow> panic + ptr \<times> 'v heap" where
  "WrapError h code e =
     (case type_assert e of
        Some httpErr \<Rightarrow> Inr (httpErr, h)
      | None \<Rightarrow>
          (let code' = (if code = 0 then StatusInternalServerError else code) in
           case error_Error h e of
             Inl x \<Rightarrow> Inl x
           | Inr message \<Rightarrow>
               Inr (new h \<lparr>Code = code', Message = message, Meta = Some Map.empty, err = e\<rparr>)))"

subsection \<open>Metadata\<close>

text \<open>
  \<^verbatim>\<open>func (e *HTTPError) AddMetaValue(key string, value any) *HTTPError\<close>:
  \<^verbatim>\<open>e.Meta[key] = value; return e\<close>. The struct is updated in place.
\<close>

fun AddMetaValue :: "'v heap \<Rightarrow> ptr \<Rightarrow> string \<Rightarrow> 'v \<Rightarrow> panic + ptr \<times> 'v heap" where
  "AddMetaValue h NilPtr key val = Inl NilDereference"
| "AddMetaValue h (Addr a) key val =
     (if a < length h then
        (case Meta (h ! a) of
           None \<Rightarrow> Inl NilMapAssignment
         | Some m \<Rightarrow> Inr (Addr a, h[a := (h ! a)\<lparr>Meta := Some (m(key \<mapsto> val))\<rparr>]))
      else Inl NilDereference)"

subsection \<open>Inspection\<close>

text \<open>
  \<^verbatim>\<open>func GetStatusCode(err error) int\<close>:
  \<^verbatim>\<open>if e, ok := err.(*HTTPError); ok { return e.Code }; return http.StatusInternalServerError\<close>.
  A type assertion, not \<^verbatim>\<open>errors.As\<close>.
\<close>

definition GetStatusCode :: "'v heap \<Rightarrow> error \<Rightarrow> panic + int" where
  "GetStatusCode h e =
     (case type_assert e of
        Some p \<Rightarrow> (case deref h p of Inl x \<Rightarrow> Inl x | Inr v \<Rightarrow> Inr (Code v))
      | None \<Rightarrow> Inr StatusInternalServerError)"

text \<open>\<^verbatim>\<open>func IsHTTPError(err error) bool\<close>: \<^verbatim>\<open>return errors.As(err, &httpErr)\<close>.\<close>

definition IsHTTPError :: "error \<Rightarrow> bool" where
  "IsHTTPError e = (errors_As e \<noteq> None)"

text \<open>
  \<^verbatim>\<open>func ToHTTPError(err error) *HTTPError\<close>: nil for nil, the pointer itself for a
  \<^verbatim>\<open>*HTTPError\<close>, and \<^verbatim>\<open>WrapError(GetStatusCode(err), err)\<close> otherwise.
\<close>

definition ToHTTPError :: "'v heap \<Rightarrow> error \<Rightarrow> panic + ptr \<times> 'v heap" where
  "ToHTTPError h e =
     (if e = nil then Inr (NilPtr, h)
      else (case type_assert e of
              Some httpErr \<Rightarrow> Inr (httpErr, h)
            | None \<Rightarrow>
                (case GetStatusCode h e of
                   Inl x \<Rightarrow> Inl x
                 | Inr code \<Rightarrow> WrapError h code e)))"

text \<open>
  Every predicate below has the shape
  \<^verbatim>\<open>var httpErr *HTTPError; return errors.As(err, &httpErr) && cond(httpErr.Code)\<close>.
  The right operand of \<^verbatim>\<open>&&\<close> is evaluated only when \<^verbatim>\<open>errors.As\<close> returned true, and
  reading \<^verbatim>\<open>httpErr.Code\<close> panics when the pointer found is nil.
\<close>

definition As_and :: "'v heap \<Rightarrow> error \<Rightarrow> (int \<Rightarrow> bool) \<Rightarrow> panic + bool" where
  "As_and h e cond =
     (case errors_As e of
        None \<Rightarrow> Inr False
      | Some httpErr \<Rightarrow>
          (case deref h httpErr of Inl x \<Rightarrow> Inl x | Inr v \<Rightarrow> Inr (cond (Code v))))"

definition IsOK :: "'v heap \<Rightarrow> error \<Rightarrow> panic + bool" where
  "IsOK h e = As_and h e (\<lambda>code. code = StatusOK)"

definition IsCreated :: "'v heap \<Rightarrow> error \<Rightarrow> panic + bool" where
  "IsCreated h e = As_and h e (\<lambda>code. code = StatusCreated)"

definition IsAccepted :: "'v heap \<Rightarrow> error \<Rightarrow> panic + bool" where
  "IsAccepted h e = As_and h e (\<lambda>code. code = StatusAccepted)"

definition IsNoContent :: "'v heap \<Rightarrow> error \<Rightarrow> panic + bool" where
  "IsNoContent h e = As_and h e (\<lambda>code. code = StatusNoContent)"

definition IsBadRequest :: "'v heap \<Rightarrow> error \<Rightarrow> panic + bool" where
  "IsBadRequest h e = As_and h e (\<lambda>code. code = StatusBadRequest)"

definition IsUnauthorized :: "'v heap \<Rightarrow> error \<Rightarrow> panic + bool" where
  "IsUnauthorized h e = As_and h e (\<lambda>code. code = StatusUnauthorized)"

definition IsForbidden :: "'v heap \<Rightarrow> error \<Rightarrow> panic + bool" where
  "IsForbidden h e = As_and h e (\<lambda>code. code = StatusForbidden)"

definition IsNotFound :: "'v heap \<Rightarrow> error \<Rightarrow> panic + bool" where
  "IsNotFound h e = As_and h e (\<lambda>code. code = StatusNotFound)"

definition IsInternalServerError :: "'v heap \<Rightarrow> error \<Rightarrow> panic + bool" where
  "IsInternalServerError h e = As_and h e (\<lambda>code. code = StatusInternalServerError)"

definition IsBadGateway :: "'v heap \<Rightarrow> error \<Rightarrow> panic + bool" where
  "IsBadGateway h e = As_and h e (\<lambda>code. code = StatusBadGateway)"

definition IsServiceUnavailable :: "'v heap \<Rightarrow> error \<Rightarrow> panic + bool" where
  "IsServiceUnavailable h e = As_and h e (\<lambda>code. code = StatusServiceUnavailable)"

definition IsGatewayTimeout :: "'v heap \<Rightarrow> error \<Rightarrow> panic + bool" where
  "IsGatewayTimeout h e = As_and h e (\<lambda>code. code = StatusGatewayTimeout)"

definition IsStatus :: "'v heap \<Rightarrow> error \<Rightarrow> int \<Rightarrow> panic + bool" where
  "IsStatus h e status = As_and h e (\<lambda>code. code = status)"

definition IsClientError :: "'v heap \<Rightarrow> error \<Rightarrow> panic + bool" where
  "IsClientError h e =
     As_and h e (\<lambda>code. code \<ge> StatusBadRequest \<and> code < StatusInternalServerError)"

definition IsServerError :: "'v heap \<Rightarrow> error \<Rightarrow> panic + bool" where
  "IsServerError h e =
     As_and h e
       (\<lambda>code. code \<ge> StatusInternalServerError \<and> code < StatusNetworkAuthenticationRequired)"

definition IsError :: "'v heap \<Rightarrow> error \<Rightarrow> panic + bool" where
  "IsError h e =
     As_and h e (\<lambda>code. code \<ge> StatusBadRequest \<and> code < StatusNetworkAuthenticationRequired)"

definition IsSuccess :: "'v heap \<Rightarrow> error \<Rightarrow> panic + bool" where
  "IsSuccess h e = As_and h e (\<lambda>code. code \<ge> StatusOK \<and> code < StatusMultipleChoices)"

definition IsRedirect :: "'v heap \<Rightarrow> error \<Rightarrow> panic + bool" where
  "IsRedirect h e = As_and h e (\<lambda>code. code \<ge> StatusMultipleChoices \<and> code < StatusBadRequest)"

subsection \<open>Example values\<close>

text \<open>
  \<^verbatim>\<open>NewHTTPError(http.StatusForbidden, "forbidden")\<close> on the empty heap, and that error
  wrapped twice by \<^verbatim>\<open>fmt.Errorf("...: %w", err)\<close>.
\<close>

definition forbidden_heap :: "string heap" where
  "forbidden_heap = snd (NewHTTPError [] StatusForbidden ''forbidden'')"

definition wrapped_twice :: error where
  "wrapped_twice =
     wrapError ''handler: service: [403] HTTP Error: - forbidden''
       (wrapError ''service: [403] HTTP Error: - forbidden'' (HTTPErrorPtr (Addr 0)))"

text \<open>
  Two structs, with the codes 404 (at address 0) and 510 (at address 1), and an error that
  wraps a plain error, then the second struct inside a wrapper, then the first.
\<close>

definition two_errors :: "string heap" where
  "two_errors =
     snd (NewHTTPError (snd (NewHTTPError [] StatusNotFound ''not found'')) 510 ''not extended'')"

definition several :: error where
  "several =
     wrapErrors ''a; b: c; d''
       [errorString ''a'', wrapError ''b: c'' (HTTPErrorPtr (Addr 1)), HTTPErrorPtr (Addr 0)]"

text \<open>A plain error wrapped once: no \<^verbatim>\<open>*HTTPError\<close> anywhere in its chain.\<close>

definition plain_wrapped :: error where
  "plain_wrapped = wrapError ''outer: standard error'' (errorString ''standard error'')"

section \<open>Properties\<close>

lemmas http_status_defs =
  StatusOK_def StatusCreated_def StatusAccepted_def StatusNoContent_def
  StatusMultipleChoices_def StatusBadRequest_def StatusUnauthorized_def
  StatusForbidden_def StatusNotFound_def StatusInternalServerError_def
  StatusBadGateway_def StatusServiceUnavailable_def StatusGatewayTimeout_def
  StatusNetworkAuthenticationRequired_def

lemmas predicate_defs =
  IsStatus_def IsOK_def IsCreated_def IsAccepted_def IsNoContent_def IsBadRequest_def
  IsUnauthorized_def IsForbidden_def IsNotFound_def IsInternalServerError_def
  IsBadGateway_def IsServiceUnavailable_def IsGatewayTimeout_def IsClientError_def
  IsServerError_def IsError_def IsSuccess_def IsRedirect_def

subsection \<open>The search of errors.As\<close>

lemma first_Some_append:
  "first_Some (xs @ ys) = (case first_Some xs of None \<Rightarrow> first_Some ys | Some x \<Rightarrow> Some x)"
  by (induction xs rule: first_Some.induct) simp_all

lemma first_Some_concat:
  "first_Some (map f (concat xss)) = first_Some (map (\<lambda>xs. first_Some (map f xs)) xss)"
proof (induction xss)
  case Nil
  show ?case by simp
next
  case (Cons xs xss)
  then show ?case
    by (cases "first_Some (map f xs)") (simp_all add: first_Some_append)
qed

text \<open>
  \<open>errors_As\<close> returns the first \<^verbatim>\<open>*HTTPError\<close> of the wrap chain: the first member of
  the chain on which the type assertion succeeds.
\<close>

lemma errors_As_wrap_chain: "errors_As e = first_Some (map type_assert (wrap_chain e))"
proof (induction e)
  case (wrapErrors s es)
  have m: "map errors_As es = map (\<lambda>x. first_Some (map type_assert (wrap_chain x))) es"
    using wrapErrors by simp
  show ?case
    by (simp only: errors_As.simps m) (simp add: first_Some_concat comp_def)
qed simp_all

lemma first_Some_None_iff: "first_Some xs = None \<longleftrightarrow> (\<forall>x \<in> set xs. x = None)"
  by (induction xs rule: first_Some.induct) simp_all

text \<open>It finds nothing exactly when the type assertion fails all along the chain.\<close>

lemma errors_As_None_iff:
  "errors_As e = None \<longleftrightarrow> (\<forall>x \<in> set (wrap_chain e). type_assert x = None)"
  by (simp add: errors_As_wrap_chain first_Some_None_iff)

lemma type_assert_errors_As: "type_assert e = Some p \<Longrightarrow> errors_As e = Some p"
  by (cases e) simp_all

lemma errors_As_None_type_assert: "errors_As e = None \<Longrightarrow> type_assert e = None"
  by (cases e) simp_all

lemma As_and_not_found: "errors_As e = None \<Longrightarrow> As_and h e cond = Inr False"
  by (simp add: As_and_def)

lemma As_and_found:
  "errors_As e = Some (Addr a) \<Longrightarrow> a < length h \<Longrightarrow> As_and h e cond = Inr (cond (Code (h ! a)))"
  by (simp add: As_and_def)

lemma As_and_nil_pointer: "errors_As e = Some NilPtr \<Longrightarrow> As_and h e cond = Inl NilDereference"
  by (simp add: As_and_def)

subsection \<open>Decimal digits\<close>

lemma digit_value_nth: "d < 10 \<Longrightarrow> digit_value (''0123456789'' ! d) = d"
proof -
  assume "d < 10"
  then consider "d = 0" | "d = 1" | "d = 2" | "d = 3" | "d = 4" | "d = 5" | "d = 6" | "d = 7"
    | "d = 8" | "d = 9"
    by atomize_elim presburger
  then show ?thesis
    by cases (simp_all add: digit_value_def)
qed

lemma decimal_value_digits: "decimal_value (digits n) = n"
proof (induction n rule: digits.induct)
  case (1 n)
  show ?case
  proof (cases "n < 10")
    case True
    then show ?thesis
      by (subst digits.simps) (simp add: decimal_value_def digit_value_nth)
  next
    case False
    with 1 have "decimal_value (digits (n div 10)) = n div 10" by simp
    with False show ?thesis
      by (subst digits.simps) (simp add: decimal_value_def digit_value_nth)
  qed
qed

lemma Sprintf_Error_format:
  "Sprintf ''[%d] HTTP Error: - %s'' [IntArg c, StringArg m] =
     Some (''['' @ itoa c @ ''] HTTP Error: - '' @ m)"
  by simp

lemma itoa_400: "itoa 400 = ''400''"
  by (simp add: itoa_def digits.simps)

subsection \<open>Wrapping\<close>

lemma GetStatusCode_no_assert: "type_assert e = None \<Longrightarrow> GetStatusCode h e = Inr 500"
  by (simp add: GetStatusCode_def StatusInternalServerError_def)

lemma error_Error_stored:
  "e \<noteq> nil \<Longrightarrow> type_assert e = None \<Longrightarrow> \<exists>msg. error_Error h e = Inr msg"
  by (cases e) simp_all

lemma WrapError_fresh:
  "type_assert e = None \<Longrightarrow> error_Error h e = Inr msg \<Longrightarrow>
   WrapError h c e =
     Inr (Addr (length h),
          h @ [\<lparr>Code = (if c = 0 then 500 else c), Message = msg, Meta = Some Map.empty, err = e\<rparr>])"
  by (simp add: WrapError_def new_def StatusInternalServerError_def)

lemma WrapError_HTTPError: "WrapError h c (HTTPErrorPtr q) = Inr (q, h)"
  by (simp add: WrapError_def)

lemma WrapError_nil: "WrapError h c nil = Inl NilDereference"
  by (simp add: WrapError_def)

text \<open>The constructors leave a map in \<open>Meta\<close>, and \<open>AddMetaValue\<close> keeps one there.\<close>

lemma NewHTTPError_Meta:
  "NewHTTPError h c m = (p, h') \<Longrightarrow> \<exists>v. deref h' p = Inr v \<and> Meta v = Some Map.empty"
  by (auto simp: NewHTTPError_def new_def)

lemma WrapError_Meta:
  "type_assert e = None \<Longrightarrow> WrapError h c e = Inr (p, h') \<Longrightarrow>
   \<exists>v. deref h' p = Inr v \<and> Meta v = Some Map.empty"
  by (cases "error_Error h e") (auto simp: WrapError_def new_def)

lemma AddMetaValue_Meta:
  "AddMetaValue h p k x = Inr (q, h') \<Longrightarrow> b < length h \<Longrightarrow> Meta (h ! b) \<noteq> None \<Longrightarrow>
   Meta (h' ! b) \<noteq> None"
  by (cases p) (auto simp: nth_list_update split: if_splits option.splits)

section \<open>The claims\<close>

subsection \<open>C1: GetStatusCode and wrapped errors\<close>

text \<open>
  C1. The claim: for every error \<open>e\<close>, \<open>GetStatusCode e\<close> is the code of the first
  HTTPError found by walking the wrap chain of \<open>e\<close>, so 403 on a chain of two wrapping
  layers that ends in an HTTPError with code 403, and 500 when the chain holds none.
  The code does not do this. \<open>GetStatusCode\<close> uses a type assertion where the predicates
  use \<^verbatim>\<open>errors.As\<close>: on \<open>wrapped_twice\<close>, whose chain ends in the HTTPError with code 403
  at address 0 of \<open>forbidden_heap\<close>, \<open>errors_As\<close> finds that HTTPError, \<open>IsHTTPError\<close>,
  \<open>IsForbidden\<close> and \<open>IsStatus 403\<close> are true, and \<open>GetStatusCode\<close> returns 500.
\<close>

theorem GetStatusCode_wrapped_forbidden:
  "deref forbidden_heap (Addr 0) =
     Inr \<lparr>Code = 403, Message = ''forbidden'', Meta = Some Map.empty, err = nil\<rparr> \<and>
   errors_As wrapped_twice = Some (Addr 0) \<and>
   IsHTTPError wrapped_twice \<and>
   IsForbidden forbidden_heap wrapped_twice = Inr True \<and>
   IsStatus forbidden_heap wrapped_twice 403 = Inr True \<and>
   GetStatusCode forbidden_heap wrapped_twice = Inr 500"
  by (simp add: forbidden_heap_def wrapped_twice_def NewHTTPError_def new_def IsHTTPError_def
      IsForbidden_def IsStatus_def As_and_def GetStatusCode_def http_status_defs)

subsection \<open>C2: the bands\<close>

text \<open>
  C2. For every error \<open>e\<close> in whose wrap chain \<^verbatim>\<open>errors.As\<close> finds an HTTPError, the
  struct at address \<open>a\<close>, the band predicates test the code of that struct against
  half-open ranges: \<open>IsClientError\<close> is true iff the code is in [400, 500),
  \<open>IsServerError\<close> iff in [500, 511), \<open>IsError\<close> iff in [400, 511), \<open>IsSuccess\<close> iff in
  [200, 300), \<open>IsRedirect\<close> iff in [300, 400). In particular \<open>IsServerError\<close> is true for
  the code 510 and false for the code 511.
\<close>

theorem band_predicates_ranges:
  assumes "errors_As e = Some (Addr a)" and "a < length h"
  shows "IsClientError h e = Inr (400 \<le> Code (h ! a) \<and> Code (h ! a) < 500) \<and>
         IsServerError h e = Inr (500 \<le> Code (h ! a) \<and> Code (h ! a) < 511) \<and>
         IsError h e = Inr (400 \<le> Code (h ! a) \<and> Code (h ! a) < 511) \<and>
         IsSuccess h e = Inr (200 \<le> Code (h ! a) \<and> Code (h ! a) < 300) \<and>
         IsRedirect h e = Inr (300 \<le> Code (h ! a) \<and> Code (h ! a) < 400) \<and>
         (Code (h ! a) = 510 \<longrightarrow> IsServerError h e = Inr True) \<and>
         (Code (h ! a) = 511 \<longrightarrow> IsServerError h e = Inr False)"
  using assms
  by (simp add: IsClientError_def IsServerError_def IsError_def IsSuccess_def IsRedirect_def
      As_and_found http_status_defs)

theorem band_predicates_ranges_witness:
  "errors_As several = Some (Addr 1) \<and> 1 < length two_errors \<and>
   Code (two_errors ! 1) = 510 \<and>
   IsClientError two_errors several = Inr False \<and>
   IsServerError two_errors several = Inr True \<and>
   IsError two_errors several = Inr True \<and>
   IsSuccess two_errors several = Inr False \<and>
   IsRedirect two_errors several = Inr False"
proof -
  have f: "errors_As several = Some (Addr 1)"
    by (simp add: several_def)
  have l: "1 < length two_errors"
    by (simp add: two_errors_def NewHTTPError_def new_def)
  have c: "Code (two_errors ! 1) = 510"
    by (simp add: two_errors_def NewHTTPError_def new_def)
  show ?thesis
    using band_predicates_ranges [OF f l] f l c by simp
qed

subsection \<open>C3: wrapping twice\<close>

text \<open>
  C3. Wrapping is idempotent: for every non-nil error \<open>e\<close> that is not itself an HTTPError
  and all codes \<open>c1\<close> and \<open>c2\<close>, \<open>WrapError c1 e\<close> returns an HTTPError \<open>p\<close>, and
  \<open>WrapError c2\<close> of \<open>p\<close> returns the same \<open>p\<close> and changes nothing. Whenever the argument
  of \<open>WrapError\<close> is exactly an HTTPError, it is returned unchanged, the heap is left as it
  was and the code argument is discarded.
\<close>

theorem WrapError_idempotent:
  "(e \<noteq> nil \<and> type_assert e = None \<longrightarrow>
      (\<exists>p h'. WrapError h c1 e = Inr (p, h') \<and>
               WrapError h' c2 (HTTPErrorPtr p) = Inr (p, h'))) \<and>
   WrapError h c2 (HTTPErrorPtr q) = Inr (q, h)"
proof (rule conjI)
  show "e \<noteq> nil \<and> type_assert e = None \<longrightarrow>
      (\<exists>p h'. WrapError h c1 e = Inr (p, h') \<and>
               WrapError h' c2 (HTTPErrorPtr p) = Inr (p, h'))"
  proof (rule impI)
    assume a: "e \<noteq> nil \<and> type_assert e = None"
    then obtain msg where "error_Error h e = Inr msg"
      using error_Error_stored by blast
    with a have "\<exists>p h'. WrapError h c1 e = Inr (p, h')"
      by (simp add: WrapError_fresh)
    then show "\<exists>p h'. WrapError h c1 e = Inr (p, h') \<and>
               WrapError h' c2 (HTTPErrorPtr p) = Inr (p, h')"
      by (auto simp: WrapError_HTTPError)
  qed
next
  show "WrapError h c2 (HTTPErrorPtr q) = Inr (q, h)"
    by (rule WrapError_HTTPError)
qed

theorem WrapError_idempotent_witness:
  "errorString ''standard error'' \<noteq> nil \<and>
   type_assert (errorString ''standard error'') = None \<and>
   (\<exists>p h'. WrapError forbidden_heap 400 (errorString ''standard error'') = Inr (p, h') \<and>
            WrapError h' 404 (HTTPErrorPtr p) = Inr (p, h')) \<and>
   WrapError forbidden_heap 404 (HTTPErrorPtr (Addr 0)) = Inr (Addr 0, forbidden_heap)"
  using WrapError_idempotent [of "errorString ''standard error''" forbidden_heap 400 404 "Addr 0"]
  by simp

subsection \<open>C4: plain errors\<close>

text \<open>
  C4. For every error \<open>e\<close> whose wrap chain holds no HTTPError (\<^verbatim>\<open>errors.As\<close> finds none),
  every status and band predicate returns false: \<open>IsStatus\<close> for every status, the twelve
  named predicates, \<open>IsClientError\<close>, \<open>IsServerError\<close>, \<open>IsError\<close>, \<open>IsSuccess\<close> and
  \<open>IsRedirect\<close>; and \<open>GetStatusCode\<close> on the same \<open>e\<close> returns 500.
\<close>

theorem plain_error_predicates_false:
  assumes "errors_As e = None"
  shows "IsStatus h e status = Inr False \<and>
         IsOK h e = Inr False \<and> IsCreated h e = Inr False \<and> IsAccepted h e = Inr False \<and>
         IsNoContent h e = Inr False \<and> IsBadRequest h e = Inr False \<and>
         IsUnauthorized h e = Inr False \<and> IsForbidden h e = Inr False \<and>
         IsNotFound h e = Inr False \<and> IsInternalServerError h e = Inr False \<and>
         IsBadGateway h e = Inr False \<and> IsServiceUnavailable h e = Inr False \<and>
         IsGatewayTimeout h e = Inr False \<and>
         IsClientError h e = Inr False \<and> IsServerError h e = Inr False \<and>
         IsError h e = Inr False \<and> IsSuccess h e = Inr False \<and> IsRedirect h e = Inr False \<and>
         GetStatusCode h e = Inr 500"
  using assms
  by (simp add: predicate_defs As_and_not_found errors_As_None_type_assert
      GetStatusCode_no_assert)

theorem plain_error_predicates_false_witness:
  "errors_As plain_wrapped = None \<and>
   IsStatus two_errors plain_wrapped 500 = Inr False \<and>
   IsInternalServerError two_errors plain_wrapped = Inr False \<and>
   IsServerError two_errors plain_wrapped = Inr False \<and>
   IsError two_errors plain_wrapped = Inr False \<and>
   GetStatusCode two_errors plain_wrapped = Inr 500"
proof -
  have n: "errors_As plain_wrapped = None"
    by (simp add: plain_wrapped_def)
  show ?thesis
    using plain_error_predicates_false [OF n, of two_errors 500] n by simp
qed

subsection \<open>C5: IsStatus\<close>

text \<open>
  C5. For every error \<open>e\<close> and integer \<open>status\<close>, \<open>IsStatus e status\<close> is true iff
  \<^verbatim>\<open>errors.As\<close> finds an HTTPError in the wrap chain of \<open>e\<close> and the code of the one found
  equals \<open>status\<close>. It is false for an error with no HTTPError in its chain, and false
  when the HTTPError found has another code.
\<close>

theorem IsStatus_iff:
  "(IsStatus h e status = Inr True \<longleftrightarrow>
      (\<exists>a. errors_As e = Some (Addr a) \<and> a < length h \<and> Code (h ! a) = status)) \<and>
   (errors_As e = None \<longrightarrow> IsStatus h e status = Inr False) \<and>
   (\<forall>a. errors_As e = Some (Addr a) \<and> a < length h \<and> Code (h ! a) \<noteq> status \<longrightarrow>
      IsStatus h e status = Inr False)"
proof (intro conjI allI impI)
  show "IsStatus h e status = Inr True \<longleftrightarrow>
      (\<exists>a. errors_As e = Some (Addr a) \<and> a < length h \<and> Code (h ! a) = status)"
  proof (cases "errors_As e")
    case None
    then show ?thesis by (simp add: IsStatus_def As_and_def)
  next
    case (Some p)
    then show ?thesis
      by (cases p) (auto simp: IsStatus_def As_and_def)
  qed
next
  assume "errors_As e = None"
  then show "IsStatus h e status = Inr False"
    by (simp add: IsStatus_def As_and_not_found)
next
  fix a
  assume "errors_As e = Some (Addr a) \<and> a < length h \<and> Code (h ! a) \<noteq> status"
  then show "IsStatus h e status = Inr False"
    by (simp add: IsStatus_def As_and_found)
qed

theorem IsStatus_iff_witness:
  "errors_As several = Some (Addr 1) \<and> 1 < length two_errors \<and>
   Code (two_errors ! 1) = 510 \<and>
   IsStatus two_errors several 510 = Inr True \<and>
   IsStatus two_errors several 404 = Inr False \<and>
   errors_As plain_wrapped = None \<and>
   IsStatus two_errors plain_wrapped 510 = Inr False"
proof -
  have f: "errors_As several = Some (Addr 1) \<and> 1 < length two_errors \<and>
           Code (two_errors ! 1) = 510"
    by (simp add: several_def two_errors_def NewHTTPError_def new_def)
  have n: "errors_As plain_wrapped = None"
    by (simp add: plain_wrapped_def)
  have "IsStatus two_errors several 510 = Inr True"
    using IsStatus_iff [of two_errors several 510] f by blast
  moreover have "IsStatus two_errors several 404 = Inr False"
    using IsStatus_iff [of two_errors several 404] f by auto
  moreover have "IsStatus two_errors plain_wrapped 510 = Inr False"
    using IsStatus_iff [of two_errors plain_wrapped 510] n by blast
  ultimately show ?thesis
    using f n by simp
qed

subsection \<open>C6: the code, the message and the cause of a wrapped error\<close>

text \<open>
  C6. For every non-nil error \<open>e\<close> that is not an HTTPError, \<open>WrapError 0 e\<close> produces an
  HTTPError with code 500, and for every code \<open>c\<close> other than zero \<open>WrapError c e\<close>
  produces an HTTPError with code exactly \<open>c\<close>. In both cases the message is the text that
  \<open>e.Error()\<close> returns and the cause, which \<open>Unwrap\<close> returns, is \<open>e\<close>.
\<close>

theorem WrapError_code:
  assumes "e \<noteq> nil" and "type_assert e = None"
  shows "\<exists>p h' v msg.
           WrapError h c e = Inr (p, h') \<and> deref h' p = Inr v \<and>
           error_Error h e = Inr msg \<and>
           (c = 0 \<longrightarrow> Code v = 500) \<and> (c \<noteq> 0 \<longrightarrow> Code v = c) \<and>
           Message v = msg \<and> err v = e \<and> Unwrap h' p = Inr e"
proof -
  from assms obtain msg where m: "error_Error h e = Inr msg"
    using error_Error_stored by blast
  let ?v = "\<lparr>Code = (if c = 0 then 500 else c), Message = msg,
              Meta = Some Map.empty, err = e\<rparr> :: 'a HTTPError"
  have "WrapError h c e = Inr (Addr (length h), h @ [?v])"
    using assms(2) m by (rule WrapError_fresh)
  moreover have "deref (h @ [?v]) (Addr (length h)) = Inr ?v"
    by simp
  moreover have "Unwrap (h @ [?v]) (Addr (length h)) = Inr e"
    by (simp add: Unwrap_def)
  ultimately show ?thesis
    using m by (intro exI [of _ "Addr (length h)"] exI [of _ "h @ [?v]"] exI [of _ ?v]
        exI [of _ msg]) simp
qed

theorem WrapError_code_witness:
  "plain_wrapped \<noteq> nil \<and> type_assert plain_wrapped = None \<and>
   (\<exists>p h' v msg.
      WrapError forbidden_heap 0 plain_wrapped = Inr (p, h') \<and> deref h' p = Inr v \<and>
      error_Error forbidden_heap plain_wrapped = Inr msg \<and>
      Code v = 500 \<and> Message v = msg \<and> err v = plain_wrapped \<and>
      Unwrap h' p = Inr plain_wrapped)"
proof -
  have n: "plain_wrapped \<noteq> nil" and t: "type_assert plain_wrapped = None"
    by (simp_all add: plain_wrapped_def)
  show ?thesis
    using WrapError_code [OF n t, of forbidden_heap 0] n t by simp
qed

subsection \<open>C7: ToHTTPError\<close>

text \<open>
  C7. \<open>ToHTTPError nil\<close> returns the nil pointer. \<open>ToHTTPError e\<close> for an \<open>e\<close> that is
  itself exactly an HTTPError returns that very pointer, and allocates nothing. For a
  non-nil error \<open>e\<close> with no HTTPError in its wrap chain, \<open>ToHTTPError e\<close> returns a new
  HTTPError, at an address that was not allocated before, with code 500, the text of \<open>e\<close> as
  its message and \<open>e\<close> as its cause.
\<close>

theorem ToHTTPError_cases:
  "ToHTTPError h nil = Inr (NilPtr, h) \<and>
   ToHTTPError h (HTTPErrorPtr p) = Inr (p, h) \<and>
   (e \<noteq> nil \<and> errors_As e = None \<longrightarrow>
      (\<exists>msg. error_Error h e = Inr msg \<and>
             ToHTTPError h e =
               Inr (Addr (length h),
                    h @ [\<lparr>Code = 500, Message = msg, Meta = Some Map.empty, err = e\<rparr>]) \<and>
             deref h (Addr (length h)) = Inl NilDereference))"
proof (intro conjI impI)
  show "ToHTTPError h nil = Inr (NilPtr, h)"
    by (simp add: ToHTTPError_def)
  show "ToHTTPError h (HTTPErrorPtr p) = Inr (p, h)"
    by (simp add: ToHTTPError_def)
next
  assume a: "e \<noteq> nil \<and> errors_As e = None"
  then have t: "type_assert e = None"
    by (simp add: errors_As_None_type_assert)
  with a obtain msg where m: "error_Error h e = Inr msg"
    using error_Error_stored by blast
  have "ToHTTPError h e = WrapError h 500 e"
    using a t by (simp add: ToHTTPError_def GetStatusCode_no_assert)
  with t m show "\<exists>msg. error_Error h e = Inr msg \<and>
             ToHTTPError h e =
               Inr (Addr (length h),
                    h @ [\<lparr>Code = 500, Message = msg, Meta = Some Map.empty, err = e\<rparr>]) \<and>
             deref h (Addr (length h)) = Inl NilDereference"
    by (simp add: WrapError_fresh)
qed

theorem ToHTTPError_cases_witness:
  "ToHTTPError forbidden_heap nil = Inr (NilPtr, forbidden_heap) \<and>
   ToHTTPError forbidden_heap (HTTPErrorPtr (Addr 0)) = Inr (Addr 0, forbidden_heap) \<and>
   plain_wrapped \<noteq> nil \<and> errors_As plain_wrapped = None \<and>
   ToHTTPError forbidden_heap plain_wrapped =
     Inr (Addr 1,
          forbidden_heap @
            [\<lparr>Code = 500, Message = ''outer: standard error'', Meta = Some Map.empty,
              err = plain_wrapped\<rparr>])"
proof -
  have n: "plain_wrapped \<noteq> nil \<and> errors_As plain_wrapped = None"
    by (simp add: plain_wrapped_def)
  have l: "length forbidden_heap = 1"
    by (simp add: forbidden_heap_def NewHTTPError_def new_def)
  have m: "error_Error forbidden_heap plain_wrapped = Inr ''outer: standard error''"
    by (simp add: plain_wrapped_def)
  show ?thesis
    using ToHTTPError_cases [of forbidden_heap "Addr 0" plain_wrapped] n l m by auto
qed

subsection \<open>C8: the text of an HTTPError\<close>

text \<open>
  C8. For every HTTPError with code \<open>c\<close> and message \<open>m\<close>, \<open>Error\<close> returns exactly
  \<^verbatim>\<open>[\<close>, the decimal code, \<^verbatim>\<open>] HTTP Error: - \<close> and the message; and
  \<open>NewHTTPError 400 "bad request"\<close> has the text \<^verbatim>\<open>[400] HTTP Error: - bad request\<close>.
  The decimal code is \<open>itoa c\<close>, whose digits denote \<open>c\<close> by \<open>decimal_value_digits\<close>.
\<close>

theorem Error_format:
  "(deref h p = Inr v \<longrightarrow>
      Error h p = Inr (''['' @ itoa (Code v) @ ''] HTTP Error: - '' @ Message v)) \<and>
   (case NewHTTPError h 400 ''bad request'' of
      (p', h') \<Rightarrow> Error h' p' = Inr ''[400] HTTP Error: - bad request'')"
  by (simp add: Error_def Sprintf_Error_format NewHTTPError_def new_def itoa_400)

theorem Error_format_witness:
  "deref two_errors (Addr 0) =
     Inr \<lparr>Code = 404, Message = ''not found'', Meta = Some Map.empty, err = nil\<rparr> \<and>
   Error two_errors (Addr 0) = Inr ''[404] HTTP Error: - not found''"
proof -
  have d: "deref two_errors (Addr 0) =
     Inr \<lparr>Code = 404, Message = ''not found'', Meta = Some Map.empty, err = nil\<rparr>"
    by (simp add: two_errors_def NewHTTPError_def new_def StatusNotFound_def)
  have "itoa 404 = ''404''"
    by (simp add: itoa_def digits.simps)
  then show ?thesis
    using Error_format [of two_errors "Addr 0"] d by simp
qed

subsection \<open>C9: AddMetaValue\<close>

text \<open>
  C9. For every HTTPError (the struct at an address \<open>a\<close> of the heap, with a map \<open>m\<close> in
  \<open>Meta\<close>, as every constructor leaves one), key \<open>k\<close> and values \<open>x\<close> then \<open>y\<close>:
  \<open>AddMetaValue k x\<close> then \<open>AddMetaValue k y\<close> both return the same pointer, and leave the
  map equal to \<open>m\<close> with \<open>k\<close> bound to \<open>y\<close>, and \<open>Code\<close>, \<open>Message\<close> and the cause as they
  were. No call of \<open>AddMetaValue\<close> that returns changes the \<open>Code\<close>, the \<open>Message\<close> or the
  cause of any struct, and it returns the pointer it was called on.
\<close>

theorem AddMetaValue_overwrite:
  "(a < length h \<and> Meta (h ! a) = Some m \<longrightarrow>
      (\<exists>h1 h2. AddMetaValue h (Addr a) k x = Inr (Addr a, h1) \<and>
                AddMetaValue h1 (Addr a) k y = Inr (Addr a, h2) \<and>
                Meta (h2 ! a) = Some (m(k \<mapsto> y)) \<and>
                Code (h2 ! a) = Code (h ! a) \<and> Message (h2 ! a) = Message (h ! a) \<and>
                err (h2 ! a) = err (h ! a))) \<and>
   (AddMetaValue h p k x = Inr (q, h') \<longrightarrow>
      q = p \<and> length h' = length h \<and>
      (\<forall>b < length h. Code (h' ! b) = Code (h ! b) \<and> Message (h' ! b) = Message (h ! b) \<and>
                       err (h' ! b) = err (h ! b)))"
proof (rule conjI)
  show "a < length h \<and> Meta (h ! a) = Some m \<longrightarrow>
      (\<exists>h1 h2. AddMetaValue h (Addr a) k x = Inr (Addr a, h1) \<and>
                AddMetaValue h1 (Addr a) k y = Inr (Addr a, h2) \<and>
                Meta (h2 ! a) = Some (m(k \<mapsto> y)) \<and>
                Code (h2 ! a) = Code (h ! a) \<and> Message (h2 ! a) = Message (h ! a) \<and>
                err (h2 ! a) = err (h ! a))"
  proof (rule impI)
    assume a: "a < length h \<and> Meta (h ! a) = Some m"
    let ?h1 = "h[a := (h ! a)\<lparr>Meta := Some (m(k \<mapsto> x))\<rparr>]"
    let ?h2 = "?h1[a := (?h1 ! a)\<lparr>Meta := Some (m(k \<mapsto> x, k \<mapsto> y))\<rparr>]"
    have 1: "AddMetaValue h (Addr a) k x = Inr (Addr a, ?h1)"
      using a by simp
    have 2: "AddMetaValue ?h1 (Addr a) k y = Inr (Addr a, ?h2)"
      using a by simp
    have 3: "Meta (?h2 ! a) = Some (m(k \<mapsto> y)) \<and>
                Code (?h2 ! a) = Code (h ! a) \<and> Message (?h2 ! a) = Message (h ! a) \<and>
                err (?h2 ! a) = err (h ! a)"
      using a by simp
    from 1 2 3 show "\<exists>h1 h2. AddMetaValue h (Addr a) k x = Inr (Addr a, h1) \<and>
                AddMetaValue h1 (Addr a) k y = Inr (Addr a, h2) \<and>
                Meta (h2 ! a) = Some (m(k \<mapsto> y)) \<and>
                Code (h2 ! a) = Code (h ! a) \<and> Message (h2 ! a) = Message (h ! a) \<and>
                err (h2 ! a) = err (h ! a)"
      by blast
  qed
next
  show "AddMetaValue h p k x = Inr (q, h') \<longrightarrow>
      q = p \<and> length h' = length h \<and>
      (\<forall>b < length h. Code (h' ! b) = Code (h ! b) \<and> Message (h' ! b) = Message (h ! b) \<and>
                       err (h' ! b) = err (h ! b))"
  proof (rule impI)
    assume r: "AddMetaValue h p k x = Inr (q, h')"
    show "q = p \<and> length h' = length h \<and>
      (\<forall>b < length h. Code (h' ! b) = Code (h ! b) \<and> Message (h' ! b) = Message (h ! b) \<and>
                       err (h' ! b) = err (h ! b))"
    proof (cases p)
      case NilPtr
      with r show ?thesis by simp
    next
      case (Addr a)
      with r show ?thesis
        by (auto simp: nth_list_update split: if_splits option.splits)
    qed
  qed
qed

theorem AddMetaValue_overwrite_witness:
  "0 < length forbidden_heap \<and> Meta (forbidden_heap ! 0) = Some Map.empty \<and>
   (\<exists>h1 h2. AddMetaValue forbidden_heap (Addr 0) ''key'' ''value'' = Inr (Addr 0, h1) \<and>
             AddMetaValue h1 (Addr 0) ''key'' ''other'' = Inr (Addr 0, h2) \<and>
             Meta (h2 ! 0) = Some [''key'' \<mapsto> ''other''] \<and>
             Code (h2 ! 0) = 403 \<and> Message (h2 ! 0) = ''forbidden'' \<and> err (h2 ! 0) = nil)"
proof -
  have f: "0 < length forbidden_heap \<and> Meta (forbidden_heap ! 0) = Some Map.empty"
    by (simp add: forbidden_heap_def NewHTTPError_def new_def)
  have c: "Code (forbidden_heap ! 0) = 403 \<and> Message (forbidden_heap ! 0) = ''forbidden'' \<and>
           err (forbidden_heap ! 0) = nil"
    by (simp add: forbidden_heap_def NewHTTPError_def new_def StatusForbidden_def)
  show ?thesis
    using AddMetaValue_overwrite [of 0 forbidden_heap Map.empty "''key''" "''value''" "''other''"]
      f c by simp
qed

subsection \<open>C10: the nil error\<close>

text \<open>
  C10. On the nil error, \<open>IsHTTPError\<close>, \<open>IsStatus\<close> and every named and band predicate
  return false, and \<open>GetStatusCode\<close> returns 500: each inspection function returns on nil
  what it returns on a plain error such as \<open>errors.New(s)\<close>.
\<close>

theorem nil_inspection:
  "IsHTTPError nil = False \<and> GetStatusCode h nil = Inr 500 \<and>
   IsStatus h nil status = Inr False \<and>
   IsOK h nil = Inr False \<and> IsCreated h nil = Inr False \<and> IsAccepted h nil = Inr False \<and>
   IsNoContent h nil = Inr False \<and> IsBadRequest h nil = Inr False \<and>
   IsUnauthorized h nil = Inr False \<and> IsForbidden h nil = Inr False \<and>
   IsNotFound h nil = Inr False \<and> IsInternalServerError h nil = Inr False \<and>
   IsBadGateway h nil = Inr False \<and> IsServiceUnavailable h nil = Inr False \<and>
   IsGatewayTimeout h nil = Inr False \<and>
   IsClientError h nil = Inr False \<and> IsServerError h nil = Inr False \<and>
   IsError h nil = Inr False \<and> IsSuccess h nil = Inr False \<and> IsRedirect h nil = Inr False \<and>
   IsHTTPError (errorString s) = IsHTTPError nil \<and>
   GetStatusCode h (errorString s) = GetStatusCode h nil \<and>
   IsStatus h (errorString s) status = IsStatus h nil status \<and>
   IsOK h (errorString s) = IsOK h nil \<and>
   IsCreated h (errorString s) = IsCreated h nil \<and>
   IsAccepted h (errorString s) = IsAccepted h nil \<and>
   IsNoContent h (errorString s) = IsNoContent h nil \<and>
   IsBadRequest h (errorString s) = IsBadRequest h nil \<and>
   IsUnauthorized h (errorString s) = IsUnauthorized h nil \<and>
   IsForbidden h (errorString s) = IsForbidden h nil \<and>
   IsNotFound h (errorString s) = IsNotFound h nil \<and>
   IsInternalServerError h (errorString s) = IsInternalServerError h nil \<and>
   IsBadGateway h (errorString s) = IsBadGateway h nil \<and>
   IsServiceUnavailable h (errorString s) = IsServiceUnavailable h nil \<and>
   IsGatewayTimeout h (errorString s) = IsGatewayTimeout h nil \<and>
   IsClientError h (errorString s) = IsClientError h nil \<and>
   IsServerError h (errorString s) = IsServerError h nil \<and>
   IsError h (errorString s) = IsError h nil \<and>
   IsSuccess h (errorString s) = IsSuccess h nil \<and>
   IsRedirect h (errorString s) = IsRedirect h nil"
  by (simp add: predicate_defs As_and_def GetStatusCode_def IsHTTPError_def
      StatusInternalServerError_def)

end
